theory Spec2Isabelle
  imports Main "HOL-Library.Sublist" "HOL-Library.Multiset"
begin

section \<open>Error normalisation (both script variants)\<close>

text \<open>
  The scripts classify an error message with \<^verbatim>\<open>re.match(ERROR_PATTERN, message)\<close>.
  The pattern is a sequence of literal text and one \<^verbatim>\<open>.*\<close>; \<^verbatim>\<open>re.match\<close> anchors
  the match at the start of the string only, and \<^verbatim>\<open>.\<close> matches every character
  except the line feed. Strings are lists of characters, one \<^typ>\<open>char\<close> per
  code point of the Python string.
\<close>

datatype re_item = Lit string | DotStar

fun re_match :: "re_item list \<Rightarrow> string \<Rightarrow> bool" where
  "re_match [] s = True"
| "re_match (Lit l # r) s = (prefix l s \<and> re_match r (drop (length l) s))"
| "re_match (DotStar # r) [] = re_match r []"
| "re_match (DotStar # r) (c # cs) =
     ((c \<noteq> CHR 0x0A \<and> re_match (DotStar # r) cs) \<or> re_match r (c # cs))"

definition PATTERN_HEAD :: string where
  "PATTERN_HEAD = ''The specified file ''"

definition PATTERN_TAIL :: string where
  "PATTERN_TAIL = '' does not exists or is not readable.: Invalid file''"

definition ERROR_PATTERN :: "re_item list" where
  "ERROR_PATTERN = [Lit PATTERN_HEAD, DotStar, Lit PATTERN_TAIL]"

definition NORMALIZED_ERROR_MESSAGE :: string where
  "NORMALIZED_ERROR_MESSAGE =
     ''The specified file {{file_full_path}} does not exists or is not readable.: Invalid file''"

text \<open>The body of the aggregation loop that picks the bucket key of one message.\<close>

definition normalize :: "string \<Rightarrow> string" where
  "normalize message =
     (if re_match ERROR_PATTERN message then NORMALIZED_ERROR_MESSAGE else message)"

text \<open>
  The missing-file shape in the words of the specification: the fixed head, an
  arbitrary path, the fixed tail and nothing else.
\<close>

definition missing_file_shape :: "string \<Rightarrow> bool" where
  "missing_file_shape s =
     (prefix PATTERN_HEAD s \<and> suffix PATTERN_TAIL (drop (length PATTERN_HEAD) s))"

section \<open>The database accessor\<close>

text \<open>
  A value stored in one of the two text columns, as far as the six queries can tell
  values apart: NULL; text that decodes; text whose bytes are not valid UTF-8, which
  SQL can trim and count but the driver cannot hand to Python; and a value of another
  storage class (a number or a blob) that the non-blank test lets through. A value of
  another storage class that the non-blank test rejects behaves in every query like
  the empty text.
\<close>

datatype sql_value = SqlNull | SqlText string | SqlBadText | SqlOther

text \<open>One line of the progress table: the integer flag and the two text columns.\<close>

record row =
  is_done :: "int option"
  cmx_document_id :: sql_value
  error_message :: sql_value

datatype column = IS_DONE | CMX_DOCUMENT_ID | ERROR_MESSAGE

text \<open>
  A database file as the queries see it: whether the file opens and holds the table,
  which columns the table has, and its lines. The content is a snapshot: every query
  of one scan sees the same lines.
\<close>

record database =
  readable :: bool
  columns :: "column list"
  table_rows :: "row list"

text \<open>
  A query raises a driver error, which \<^verbatim>\<open>_execute_query\<close> turns into \<^verbatim>\<open>None\<close>, when
  the file or table is unusable or the query names a column the table lacks.
\<close>

definition query_fails :: "database \<Rightarrow> column list \<Rightarrow> bool" where
  "query_fails db cols = (\<not> readable db \<or> \<not> list_all (\<lambda>c. c \<in> set (columns db)) cols)"

text \<open>\<^verbatim>\<open>_execute_query(SELECT COUNT(*) ... WHERE p, fetch_one=True)\<close>\<close>

definition execute_query_one :: "database \<Rightarrow> column list \<Rightarrow> (row \<Rightarrow> bool) \<Rightarrow> int option" where
  "execute_query_one db cols p =
     (if query_fails db cols then None else Some (int (length (filter p (table_rows db)))))"

text \<open>
  What Python receives for a selected value: \<^verbatim>\<open>None\<close>, a \<^verbatim>\<open>str\<close>, or an object of
  another type. Text that does not decode makes the driver raise
  \<^verbatim>\<open>OperationalError\<close> while the rows are fetched.
\<close>

datatype fetched = FetchedNone | FetchedStr string | FetchedOther

definition fetch :: "sql_value \<Rightarrow> fetched option" where
  "fetch v =
     (case v of
        SqlNull \<Rightarrow> Some FetchedNone
      | SqlText s \<Rightarrow> Some (FetchedStr s)
      | SqlBadText \<Rightarrow> None
      | SqlOther \<Rightarrow> Some FetchedOther)"

text \<open>
  \<^verbatim>\<open>_execute_query(SELECT error_message ... WHERE p)\<close>: one value per selected line, or
  \<^verbatim>\<open>None\<close> when the query or the fetching of a value raises.
\<close>

definition execute_query_all ::
  "database \<Rightarrow> column list \<Rightarrow> (row \<Rightarrow> bool) \<Rightarrow> fetched list option" where
  "execute_query_all db cols p =
     (if query_fails db cols then None
      else those (map (\<lambda>r. fetch (error_message r)) (filter p (table_rows db))))"

text \<open>SQL \<^verbatim>\<open>TRIM\<close> removes spaces at both ends, and only spaces.\<close>

definition sql_trim :: "string \<Rightarrow> string" where
  "sql_trim s = rev (dropWhile (\<lambda>c. c = CHR 0x20) (rev (dropWhile (\<lambda>c. c = CHR 0x20) s)))"

text \<open>\<^verbatim>\<open>x IS NOT NULL AND TRIM(x) <> ''\<close>\<close>

definition not_blank :: "sql_value \<Rightarrow> bool" where
  "not_blank x =
     (case x of
        SqlNull \<Rightarrow> False
      | SqlText s \<Rightarrow> sql_trim s \<noteq> []
      | SqlBadText \<Rightarrow> True
      | SqlOther \<Rightarrow> True)"

definition where_done_1 :: "row \<Rightarrow> bool" where
  "where_done_1 r = (is_done r = Some 1)"

definition where_cmx :: "row \<Rightarrow> bool" where
  "where_cmx r = not_blank (cmx_document_id r)"

definition where_done_0 :: "row \<Rightarrow> bool" where
  "where_done_0 r = (is_done r = Some 0)"

definition where_error :: "row \<Rightarrow> bool" where
  "where_error r = (is_done r = Some 0 \<and> not_blank (error_message r))"

section \<open>The statistics record and its dictionary\<close>

text \<open>
  The dictionary returned by \<^verbatim>\<open>get_stats\<close>. The error breakdown is a Python dict:
  an association list with distinct keys in insertion order.
\<close>

record stats =
  db_name :: string
  db_path :: string
  total_rows :: int
  is_done_1_count :: int
  cmx_document_id_not_empty_count :: int
  is_done_0_count :: int
  is_done_0_with_error_count :: int
  error_message_breakdown :: "(string \<times> int) list"

text \<open>\<^verbatim>\<open>d.get(k, default)\<close>\<close>

fun dict_get :: "(string \<times> int) list \<Rightarrow> string \<Rightarrow> int \<Rightarrow> int" where
  "dict_get [] k dflt = dflt"
| "dict_get ((k', v) # d) k dflt = (if k' = k then v else dict_get d k dflt)"

text \<open>\<^verbatim>\<open>d[k] = v\<close>: an existing key keeps its place, a new key goes to the end.\<close>

fun dict_set :: "(string \<times> int) list \<Rightarrow> string \<Rightarrow> int \<Rightarrow> (string \<times> int) list" where
  "dict_set [] k v = [(k, v)]"
| "dict_set ((k', v') # d) k v = (if k' = k then (k, v) # d else (k', v') # dict_set d k v)"

text \<open>\<^verbatim>\<open>x or 0\<close> on the result of a counting query.\<close>

definition or_0 :: "int option \<Rightarrow> int" where
  "or_0 x = (case x of None \<Rightarrow> 0 | Some n \<Rightarrow> if n = 0 then 0 else n)"

text \<open>\<^verbatim>\<open>os.path.basename\<close> (POSIX): what follows the last slash.\<close>

definition basename :: "string \<Rightarrow> string" where
  "basename p = rev (takeWhile (\<lambda>c. c \<noteq> CHR ''/'') (rev p))"

section \<open>\<^verbatim>\<open>SQLiteAnalyzer.get_stats\<close> of \<^verbatim>\<open>fsada_stats_ai_studio.py\<close>\<close>

text \<open>
  The normalisation and aggregation loop over the raw error messages. A value that is
  not a string makes \<^verbatim>\<open>re.match\<close> raise \<^verbatim>\<open>TypeError\<close>: the loop then has no result.
\<close>

fun count_errors :: "(string \<times> int) list \<Rightarrow> fetched list \<Rightarrow> (string \<times> int) list option" where
  "count_errors error_message_counts [] = Some error_message_counts"
| "count_errors error_message_counts (r # raw) =
     (case (case r of FetchedNone \<Rightarrow> Some [] | FetchedStr m \<Rightarrow> Some m | FetchedOther \<Rightarrow> None) of
        None \<Rightarrow> None
      | Some message \<Rightarrow>
          (let normalized_msg = normalize message
           in count_errors
                (dict_set error_message_counts normalized_msg
                   (dict_get error_message_counts normalized_msg 0 + 1)) raw))"

text \<open>
  \<^verbatim>\<open>get_stats\<close>: \<^verbatim>\<open>None\<close> when the first query fails or when the outer handler catches
  the exception of the loop.
\<close>

definition get_stats :: "string \<Rightarrow> database \<Rightarrow> stats option" where
  "get_stats path db =
     (case execute_query_one db [] (\<lambda>r. True) of
        None \<Rightarrow> None
      | Some count_total \<Rightarrow>
          (let count_is_done_1 = execute_query_one db [IS_DONE] where_done_1;
               count_cmx_not_empty = execute_query_one db [CMX_DOCUMENT_ID] where_cmx;
               count_is_done_0 = execute_query_one db [IS_DONE] where_done_0;
               count_error_not_empty =
                 execute_query_one db [IS_DONE, ERROR_MESSAGE] where_error;
               error_message_counts_raw =
                 execute_query_all db [IS_DONE, ERROR_MESSAGE] where_error
           in case count_errors []
                     (case error_message_counts_raw of None \<Rightarrow> [] | Some raw \<Rightarrow> raw) of
                None \<Rightarrow> None
              | Some error_message_counts \<Rightarrow>
                  Some \<lparr> db_name = basename path,
                         db_path = path,
                         total_rows = count_total,
                         is_done_1_count = or_0 count_is_done_1,
                         cmx_document_id_not_empty_count = or_0 count_cmx_not_empty,
                         is_done_0_count = or_0 count_is_done_0,
                         is_done_0_with_error_count = or_0 count_error_not_empty,
                         error_message_breakdown = error_message_counts \<rparr>))"

section \<open>\<^verbatim>\<open>SQLiteAnalyzer.get_stats\<close> of \<^verbatim>\<open>fsada_stats_openai.py\<close>\<close>

definition ERROR_PATTERN_openai :: "re_item list" where
  "ERROR_PATTERN_openai =
     [Lit ''The specified file '', DotStar,
      Lit '' does not exists or is not readable.: Invalid file'']"

definition NORMALIZED_ERROR_MESSAGE_openai :: string where
  "NORMALIZED_ERROR_MESSAGE_openai =
     ''The specified file {{file_full_path}} does not exists or is not readable.: Invalid file''"

fun count_errors_openai ::
  "(string \<times> int) list \<Rightarrow> fetched list \<Rightarrow> (string \<times> int) list option" where
  "count_errors_openai error_message_counts [] = Some error_message_counts"
| "count_errors_openai error_message_counts (r # raw) =
     (case (case r of FetchedNone \<Rightarrow> Some [] | FetchedStr m \<Rightarrow> Some m | FetchedOther \<Rightarrow> None) of
        None \<Rightarrow> None
      | Some message \<Rightarrow>
          (let normalized_msg =
                 (if re_match ERROR_PATTERN_openai message then NORMALIZED_ERROR_MESSAGE_openai
                  else message)
           in count_errors_openai
                (dict_set error_message_counts normalized_msg
                   (dict_get error_message_counts normalized_msg 0 + 1)) raw))"

definition get_stats_openai :: "string \<Rightarrow> database \<Rightarrow> stats option" where
  "get_stats_openai path db =
     (case execute_query_one db [] (\<lambda>r. True) of
        None \<Rightarrow> None
      | Some count_total \<Rightarrow>
          (let count_is_done_1 = execute_query_one db [IS_DONE] where_done_1;
               count_cmx_not_empty = execute_query_one db [CMX_DOCUMENT_ID] where_cmx;
               count_is_done_0 = execute_query_one db [IS_DONE] where_done_0;
               count_error_not_empty =
                 execute_query_one db [IS_DONE, ERROR_MESSAGE] where_error;
               error_message_counts_raw =
                 execute_query_all db [IS_DONE, ERROR_MESSAGE] where_error
           in case count_errors_openai []
                     (case error_message_counts_raw of None \<Rightarrow> [] | Some raw \<Rightarrow> raw) of
                None \<Rightarrow> None
              | Some error_message_counts \<Rightarrow>
                  Some \<lparr> db_name = basename path,
                         db_path = path,
                         total_rows = count_total,
                         is_done_1_count = or_0 count_is_done_1,
                         cmx_document_id_not_empty_count = or_0 count_cmx_not_empty,
                         is_done_0_count = or_0 count_is_done_0,
                         is_done_0_with_error_count = or_0 count_error_not_empty,
                         error_message_breakdown = error_message_counts \<rparr>))"

section \<open>Report formatting and export rows\<close>

text \<open>
  \<^verbatim>\<open>sorted(d.items(), key=lambda it: it[1], reverse=True)\<close>: Python's sort is stable
  and \<^verbatim>\<open>reverse=True\<close> keeps the original order of equal keys, so the result is the
  stable sort by the negated count.
\<close>

definition sorted_errors :: "(string \<times> int) list \<Rightarrow> (string \<times> int) list" where
  "sorted_errors breakdown = sort_key (\<lambda>it. - snd it) breakdown"

text \<open>The label shown on the console in place of the placeholder message.\<close>

definition MISSING_FILE_LABEL :: string where
  "MISSING_FILE_LABEL = ''[FICHIER MANQUANT NORMALIS'' @ [CHR 0xC9] @ '']''"

text \<open>The loop body of the error detail table in \<^verbatim>\<open>format_stats_report\<close>.\<close>

definition display :: "string \<Rightarrow> string" where
  "display msg =
     (let truncated = (if length msg > 80 then take 77 msg @ ''...'' else msg)
      in if msg = NORMALIZED_ERROR_MESSAGE then MISSING_FILE_LABEL else truncated)"

definition err_rows :: "(string \<times> int) list \<Rightarrow> (string \<times> int) list" where
  "err_rows error_breakdown = map (\<lambda>(msg, cnt). (display msg, cnt)) (sorted_errors error_breakdown)"

text \<open>
  The error detail part of \<^verbatim>\<open>format_stats_report\<close>: the rows of the table printed for
  each statistics record with a non-empty breakdown, in the order of the records.
\<close>

fun format_stats_report :: "stats list \<Rightarrow> (string \<times> int) list list" where
  "format_stats_report [] = []"
| "format_stats_report (s # all_stats) =
     (if error_message_breakdown s = [] then format_stats_report all_stats
      else err_rows (error_message_breakdown s) # format_stats_report all_stats)"

text \<open>
  A value of an export row. The rows built from statistics records hold strings and
  integers; the cell writer also tells \<^verbatim>\<open>None\<close>, booleans (integers, for Python) and
  floats apart. A float is kept as the text that \<^verbatim>\<open>str\<close> gives for it, all the writer
  asks of it.
\<close>

datatype cell_value = PyNone | PyBool bool | PyInt int | PyFloat string | PyStr string

text \<open>\<^verbatim>\<open>a or b\<close> on strings.\<close>

definition or_str :: "string \<Rightarrow> string \<Rightarrow> string" where
  "or_str a b = (if a \<noteq> [] then a else b)"

text \<open>The body of the loop of \<^verbatim>\<open>_build_excel_rows\<close> for one statistics record.\<close>

definition excel_rows_of :: "stats \<Rightarrow> string \<Rightarrow> cell_value list list" where
  "excel_rows_of s file_system =
     (let path = or_str (db_path s) (or_str (db_name s) []);
          total = total_rows s;
          done = is_done_1_count s;
          err_total = is_done_0_count s;
          breakdown = error_message_breakdown s
      in if breakdown \<noteq> []
         then map (\<lambda>(msg, count).
                [PyStr file_system, PyStr path, PyInt total, PyInt done, PyInt err_total,
                 PyStr msg, PyInt count]) (sorted_errors breakdown)
         else [[PyStr file_system, PyStr path, PyInt total, PyInt done, PyInt err_total,
                PyStr [], PyInt 0]])"

fun build_excel_rows :: "stats list \<Rightarrow> string \<Rightarrow> cell_value list list" where
  "build_excel_rows [] file_system = []"
| "build_excel_rows (s # all_stats) file_system =
     excel_rows_of s file_system @ build_excel_rows all_stats file_system"

text \<open>\<^verbatim>\<open>msg.replace("\n", " ").replace("\r", "")\<close>\<close>

definition clean_msg :: "string \<Rightarrow> string" where
  "clean_msg msg =
     filter (\<lambda>c. c \<noteq> CHR 0x0D) (map (\<lambda>c. if c = CHR 0x0A then CHR 0x20 else c) msg)"

text \<open>The rows that \<^verbatim>\<open>export_to_excel_csv\<close> writes for one statistics record.\<close>

definition csv_rows_of :: "stats \<Rightarrow> string \<Rightarrow> cell_value list list" where
  "csv_rows_of stat fs_system_name =
     (let base_info = [PyStr fs_system_name, PyStr (db_path stat), PyInt (total_rows stat),
                       PyInt (is_done_1_count stat), PyInt (is_done_0_count stat)];
          errors = error_message_breakdown stat
      in if errors \<noteq> []
         then map (\<lambda>(msg, count). base_info @ [PyStr (clean_msg msg), PyInt count])
                (sorted_errors errors)
         else [base_info @ [PyStr [], PyInt 0]])"

text \<open>The rows that \<^verbatim>\<open>export_to_excel_csv\<close> writes after the header row.\<close>

fun export_to_excel_csv :: "stats list \<Rightarrow> string \<Rightarrow> cell_value list list" where
  "export_to_excel_csv [] fs_system_name = []"
| "export_to_excel_csv (stat # all_stats) fs_system_name =
     csv_rows_of stat fs_system_name @ export_to_excel_csv all_stats fs_system_name"

section \<open>The spreadsheet exporter (\<^verbatim>\<open>fsada_stats_openai.py\<close>)\<close>

text \<open>
  An element of the document tree as \<^verbatim>\<open>xml.etree.ElementTree\<close> holds it: the tag in
  \<^verbatim>\<open>{namespace}name\<close> form, the attribute dict, the text, the tail and the children.
\<close>

datatype xml =
  Element (tag: string) (attrib: "(string \<times> string) list")
    (etext: "string option") (etail: "string option") (children: "xml list")

datatype error = ValueError | FileNotFoundError | KeyError | ParseError | RuntimeError

type_synonym bytes = string

text \<open>An archive is the list of its entries in directory order: name and content.\<close>

type_synonym archive = "(string \<times> bytes) list"

definition MAIN_NS :: string where
  "MAIN_NS = ''http://schemas.openxmlformats.org/spreadsheetml/2006/main''"

definition AC_NS :: string where
  "AC_NS = ''http://schemas.microsoft.com/office/spreadsheetml/2009/9/ac''"

definition qname :: "string \<Rightarrow> string \<Rightarrow> string" where
  "qname ns name = ''{'' @ ns @ ''}'' @ name"

definition SHEET_PART :: string where
  "SHEET_PART = ''xl/worksheets/sheet1.xml''"

text \<open>
  \<^verbatim>\<open>ZipFile.read(name)\<close> looks the name up in the archive's name table, where a later
  entry of the same name replaces an earlier one; an unknown name raises \<^verbatim>\<open>KeyError\<close>.
\<close>

fun zip_read :: "archive \<Rightarrow> string \<Rightarrow> bytes option" where
  "zip_read [] name = None"
| "zip_read ((n, data) # zin) name =
     (case zip_read zin name of
        Some later \<Rightarrow> Some later
      | None \<Rightarrow> if n = name then Some data else None)"

text \<open>A loop that stops at the first exception: the first error, or all the results.\<close>

fun collect :: "(error + 'a) list \<Rightarrow> error + 'a list" where
  "collect [] = Inr []"
| "collect (x # xs) =
     (case x of
        Inl e \<Rightarrow> Inl e
      | Inr v \<Rightarrow> (case collect xs of Inl e \<Rightarrow> Inl e | Inr vs \<Rightarrow> Inr (v # vs)))"

text \<open>The decimal digits of a natural number, and the decimal text of an integer.\<close>

fun str_nat :: "nat \<Rightarrow> string" where
  "str_nat n = (if n < 10 then [char_of (48 + n)] else str_nat (n div 10) @ [char_of (48 + n mod 10)])"

declare str_nat.simps [simp del]

definition decimal_text :: "int \<Rightarrow> string" where
  "decimal_text i = (if i < 0 then CHR ''-'' # str_nat (nat (- i)) else str_nat (nat i))"

text \<open>
  \<^verbatim>\<open>str(n)\<close> of an integer, also inside an f-string: the decimal text, but Python
  raises \<^verbatim>\<open>ValueError\<close> for an integer of more digits than its conversion limit.
\<close>

definition INT_MAX_STR_DIGITS :: nat where
  "INT_MAX_STR_DIGITS = 4300"

definition str_int :: "int \<Rightarrow> error + string" where
  "str_int i =
     (if length (str_nat (nat \<bar>i\<bar>)) > INT_MAX_STR_DIGITS then Inl ValueError
      else Inr (decimal_text i))"

text \<open>\<^verbatim>\<open>_col_idx_to_name\<close>: the column letters of a 1-based column index.\<close>

function col_idx_to_name_loop :: "int \<Rightarrow> string \<Rightarrow> string" where
  "col_idx_to_name_loop idx name =
     (if idx > 0
      then col_idx_to_name_loop ((idx - 1) div 26) (char_of (65 + (idx - 1) mod 26) # name)
      else name)"
  by pat_completeness auto
termination
  by (relation "measure (\<lambda>(idx, name). nat idx)") auto

declare col_idx_to_name_loop.simps [simp del]

definition col_idx_to_name :: "int \<Rightarrow> string" where
  "col_idx_to_name idx = col_idx_to_name_loop idx []"

text \<open>\<^verbatim>\<open>str(value)\<close> of a cell value.\<close>

definition py_str :: "cell_value \<Rightarrow> error + string" where
  "py_str value =
     (case value of
        PyNone \<Rightarrow> Inr ''None''
      | PyBool b \<Rightarrow> Inr (if b then ''True'' else ''False'')
      | PyInt n \<Rightarrow> str_int n
      | PyFloat f \<Rightarrow> Inr f
      | PyStr s \<Rightarrow> Inr s)"

text \<open>\<^verbatim>\<open>isinstance(value, (int, float))\<close>\<close>

definition is_number :: "cell_value \<Rightarrow> bool" where
  "is_number value =
     (case value of
        PyBool b \<Rightarrow> True
      | PyInt n \<Rightarrow> True
      | PyFloat f \<Rightarrow> True
      | _ \<Rightarrow> False)"

text \<open>The cell element built for one value (the body of the inner loop).\<close>

definition make_cell :: "string \<Rightarrow> cell_value \<Rightarrow> error + xml" where
  "make_cell cell_ref value =
     (let cell_attrib = [(''r'', cell_ref), (''s'', ''2'')]
      in if value = PyNone \<or> value = PyStr []
         then Inr (Element (qname MAIN_NS ''c'') cell_attrib None None [])
         else if is_number value
         then (case py_str value of
                 Inl e \<Rightarrow> Inl e
               | Inr number_text \<Rightarrow>
                   Inr (Element (qname MAIN_NS ''c'') cell_attrib None None
                          [Element (qname MAIN_NS ''v'') [] (Some number_text) None []]))
         else (case py_str value of
                 Inl e \<Rightarrow> Inl e
               | Inr inline_text \<Rightarrow>
                   Inr (Element (qname MAIN_NS ''c'') (cell_attrib @ [(''t'', ''inlineStr'')])
                          None None
                          [Element (qname MAIN_NS ''is'') [] None None
                             [Element (qname MAIN_NS ''t'') [] (Some inline_text) None []]])))"

text \<open>The row element built for one export row (the body of the outer loop).\<close>

definition make_row :: "int \<Rightarrow> cell_value list \<Rightarrow> error + xml" where
  "make_row row_index row_values =
     (case str_int row_index of
        Inl e \<Rightarrow> Inl e
      | Inr index_text \<Rightarrow>
          (case collect
                  (map (\<lambda>(col_idx, value).
                          make_cell (col_idx_to_name (int col_idx) @ index_text) value)
                     (enumerate 1 row_values)) of
             Inl e \<Rightarrow> Inl e
           | Inr cells \<Rightarrow>
               Inr (Element (qname MAIN_NS ''row'')
                      [(''r'', index_text), (''spans'', ''1:7''),
                       (qname AC_NS ''dyDescent'', ''0.25'')]
                      None None cells)))"

text \<open>
  The index read from an existing row, \<^verbatim>\<open>None\<close> where the loop skips the row: the
  attribute is missing (\<^verbatim>\<open>TypeError\<close>) or \<^verbatim>\<open>int\<close> refuses it (\<^verbatim>\<open>ValueError\<close>). The
  builtin \<^verbatim>\<open>int\<close> on strings is the parameter \<open>int_of_str\<close>, so nothing is fixed about
  the digits, the white space and the length that it accepts.
\<close>

definition row_r :: "(string \<Rightarrow> int option) \<Rightarrow> xml \<Rightarrow> int option" where
  "row_r int_of_str r =
     (case map_of (attrib r) ''r'' of None \<Rightarrow> None | Some a \<Rightarrow> int_of_str a)"

text \<open>The loop that finds the highest existing row index, starting from \<open>max_r\<close>.\<close>

fun max_row_index :: "(string \<Rightarrow> int option) \<Rightarrow> int \<Rightarrow> xml list \<Rightarrow> int" where
  "max_row_index int_of_str max_r [] = max_r"
| "max_row_index int_of_str max_r (r # existing_rows) =
     (case row_r int_of_str r of
        None \<Rightarrow> max_row_index int_of_str max_r existing_rows
      | Some rr \<Rightarrow> max_row_index int_of_str (if rr > max_r then rr else max_r) existing_rows)"

text \<open>\<^verbatim>\<open>e.findall(tag)\<close>: the direct children with the tag.\<close>

definition findall :: "string \<Rightarrow> xml \<Rightarrow> xml list" where
  "findall t e = filter (\<lambda>k. tag k = t) (children e)"

definition start_row :: "(string \<Rightarrow> int option) \<Rightarrow> xml \<Rightarrow> int" where
  "start_row int_of_str sheet_data =
     (let max_r = max_row_index int_of_str 0 (findall (qname MAIN_NS ''row'') sheet_data)
      in if max_r \<noteq> 0 then max_r + 1 else 1)"

text \<open>The row elements the export loop appends to the row container.\<close>

definition new_rows :: "(string \<Rightarrow> int option) \<Rightarrow> xml \<Rightarrow> cell_value list list \<Rightarrow> error + xml list" where
  "new_rows int_of_str sheet_data rows_data =
     collect
       (map (\<lambda>(i, row_values). make_row (start_row int_of_str sheet_data + int i) row_values)
          (enumerate 0 rows_data))"

definition append_rows :: "(string \<Rightarrow> int option) \<Rightarrow> xml \<Rightarrow> cell_value list list \<Rightarrow> error + xml" where
  "append_rows int_of_str sheet_data rows_data =
     (case new_rows int_of_str sheet_data rows_data of
        Inl e \<Rightarrow> Inl e
      | Inr appended \<Rightarrow>
          Inr (Element (tag sheet_data) (attrib sheet_data) (etext sheet_data) (etail sheet_data)
                 (children sheet_data @ appended)))"

text \<open>
  \<^verbatim>\<open>root.find(tag)\<close> is the first direct child with the tag, here with the children
  before and after it.
\<close>

fun find_first :: "string \<Rightarrow> xml list \<Rightarrow> (xml list \<times> xml \<times> xml list) option" where
  "find_first t [] = None"
| "find_first t (k # ks) =
     (if tag k = t then Some ([], k, ks)
      else map_option (\<lambda>(pre, found, post). (k # pre, found, post)) (find_first t ks))"

text \<open>
  The rows are appended to the row container in place, so the tree afterwards is the
  root with that one child updated.
\<close>

definition new_sheet_tree ::
  "(string \<Rightarrow> int option) \<Rightarrow> xml \<Rightarrow> cell_value list list \<Rightarrow> error + xml" where
  "new_sheet_tree int_of_str root rows_data =
     (case find_first (qname MAIN_NS ''sheetData'') (children root) of
        None \<Rightarrow> Inl RuntimeError
      | Some (pre, sheet_data, post) \<Rightarrow>
          (case append_rows int_of_str sheet_data rows_data of
             Inl e \<Rightarrow> Inl e
           | Inr sheet_data' \<Rightarrow>
               Inr (Element (tag root) (attrib root) (etext root) (etail root)
                      (pre @ sheet_data' # post))))"

text \<open>The loop that writes the output archive, entry by entry.\<close>

fun copy_parts :: "archive \<Rightarrow> bytes \<Rightarrow> archive \<Rightarrow> error + archive" where
  "copy_parts zin new_sheet_xml [] = Inr []"
| "copy_parts zin new_sheet_xml ((filename, content) # infolist) =
     (case zip_read zin filename of
        None \<Rightarrow> Inl KeyError
      | Some data_bytes \<Rightarrow>
          (case copy_parts zin new_sheet_xml infolist of
             Inl e \<Rightarrow> Inl e
           | Inr zout \<Rightarrow>
               Inr ((filename, if filename = SHEET_PART then new_sheet_xml else data_bytes) # zout)))"

text \<open>
  \<^verbatim>\<open>export_stats_to_excel\<close>. The builtin \<^verbatim>\<open>int\<close> and the parser and the serialiser of
  the tree library are parameters (\<open>int_of_str\<close> and \<open>fromstring\<close> return \<^verbatim>\<open>None\<close> where
  Python raises); the template is \<^verbatim>\<open>None\<close> when the file at the template path cannot
  be opened. The result is the output archive, or the exception raised before anything
  is written.
\<close>

definition export_stats_to_excel ::
  "(string \<Rightarrow> int option) \<Rightarrow> (bytes \<Rightarrow> xml option) \<Rightarrow> (xml \<Rightarrow> bytes) \<Rightarrow> archive option \<Rightarrow>
     stats list \<Rightarrow> string \<Rightarrow> error + archive" where
  "export_stats_to_excel int_of_str fromstring tostring template all_stats file_system =
     (let rows_data = build_excel_rows all_stats file_system
      in if rows_data = [] then Inl ValueError
         else case template of
                None \<Rightarrow> Inl FileNotFoundError
              | Some zin \<Rightarrow>
                  (case zip_read zin SHEET_PART of
                     None \<Rightarrow> Inl KeyError
                   | Some sheet_xml \<Rightarrow>
                       (case fromstring sheet_xml of
                          None \<Rightarrow> Inl ParseError
                        | Some root \<Rightarrow>
                            (case new_sheet_tree int_of_str root rows_data of
                               Inl e \<Rightarrow> Inl e
                             | Inr root' \<Rightarrow> copy_parts zin (tostring root') zin))))"

section \<open>Notions used to state the properties\<close>

text \<open>The row indices that the existing rows of a row container carry.\<close>

definition existing_indices :: "(string \<Rightarrow> int option) \<Rightarrow> xml \<Rightarrow> int list" where
  "existing_indices int_of_str sheet_data =
     List.map_filter (row_r int_of_str) (findall (qname MAIN_NS ''row'') sheet_data)"


text \<open>
  How the copy loop relates an entry of the template to the entry it writes: the same
  name, and as content the new worksheet text for the worksheet part and otherwise
  what the name table of the template gives for the name.
\<close>

definition copied :: "archive \<Rightarrow> bytes \<Rightarrow> string \<times> bytes \<Rightarrow> string \<times> bytes \<Rightarrow> bool" where
  "copied zin new item out =
     (fst out = fst item \<and>
      (if fst item = SHEET_PART then snd out = new
       else zip_read zin (fst item) = Some (snd out)))"

section \<open>Concrete inputs\<close>

definition example_message :: string where
  "example_message =
     ''The specified file /a/b.pdf does not exists or is not readable.: Invalid file''"

definition example_message_suffixed :: string where
  "example_message_suffixed =
     ''The specified file /a/b.pdf does not exists or is not readable.: Invalid file (retry 2)''"

definition example_message_newline :: string where
  "example_message_newline =
     ''The specified file /a'' @ [CHR 0x0A] @
     ''b.pdf does not exists or is not readable.: Invalid file''"

text \<open>
  Seven finished lines, two pending lines without a message and three pending lines
  with a missing-file message.
\<close>

definition example_db :: database where
  "example_db =
     \<lparr> readable = True,
       columns = [IS_DONE, CMX_DOCUMENT_ID, ERROR_MESSAGE],
       table_rows =
         replicate 7 \<lparr> is_done = Some 1, cmx_document_id = SqlText ''doc'', error_message = SqlNull \<rparr> @
         replicate 2 \<lparr> is_done = Some 0, cmx_document_id = SqlNull, error_message = SqlNull \<rparr> @
         replicate 3 \<lparr> is_done = Some 0, cmx_document_id = SqlNull,
                       error_message = SqlText example_message \<rparr> \<rparr>"

definition example_stats :: stats where
  "example_stats =
     \<lparr> db_name = ''a.db'', db_path = ''/fs/a.db'', total_rows = 12, is_done_1_count = 7,
       cmx_document_id_not_empty_count = 7, is_done_0_count = 5,
       is_done_0_with_error_count = 3,
       error_message_breakdown = [(NORMALIZED_ERROR_MESSAGE, 3)] \<rparr>"



definition example_empty :: stats where
  "example_empty =
     \<lparr> db_name = ''b.db'', db_path = ''/fs/b.db'', total_rows = 4, is_done_1_count = 4,
       cmx_document_id_not_empty_count = 4, is_done_0_count = 0,
       is_done_0_with_error_count = 0, error_message_breakdown = [] \<rparr>"

definition example_two :: stats where
  "example_two =
     \<lparr> db_name = ''c.db'', db_path = ''/fs/c.db'', total_rows = 9, is_done_1_count = 4,
       cmx_document_id_not_empty_count = 4, is_done_0_count = 5,
       is_done_0_with_error_count = 5,
       error_message_breakdown = [(''disk full'', 2), (''timeout'', 3)] \<rparr>"

definition example_crlf :: stats where
  "example_crlf =
     \<lparr> db_name = ''d.db'', db_path = ''/fs/d.db'', total_rows = 1, is_done_1_count = 0,
       cmx_document_id_not_empty_count = 0, is_done_0_count = 1,
       is_done_0_with_error_count = 1,
       error_message_breakdown = [(''line one'' @ [CHR 0x0D, CHR 0x0A] @ ''line two'', 1)] \<rparr>"

text \<open>
  A reader of decimal numerals for the concrete runs, in the place of \<^verbatim>\<open>int\<close>, which
  it follows on text of ASCII characters: surrounding white space is dropped, a sign may
  lead, the digits may be grouped by single underscores, and more digits than the
  conversion limit are refused.
\<close>

definition is_space :: "char \<Rightarrow> bool" where
  "is_space c = (c \<in> set [CHR 0x20, CHR 0x09, CHR 0x0A, CHR 0x0B, CHR 0x0C, CHR 0x0D,
                           CHR 0x1C, CHR 0x1D, CHR 0x1E, CHR 0x1F, CHR 0x85, CHR 0xA0])"

definition strip :: "string \<Rightarrow> string" where
  "strip s = rev (dropWhile is_space (rev (dropWhile is_space s)))"

definition is_digit :: "char \<Rightarrow> bool" where
  "is_digit c = (48 \<le> (of_char c :: nat) \<and> (of_char c :: nat) \<le> 57)"

fun digits_value :: "nat \<Rightarrow> string \<Rightarrow> nat option" where
  "digits_value acc [] = Some acc"
| "digits_value acc [c] = (if is_digit c then Some (10 * acc + (of_char c - 48)) else None)"
| "digits_value acc (c # d # cs) =
     (if is_digit c then
        (if d = CHR ''_'' then
           (case cs of [] \<Rightarrow> None | _ \<Rightarrow> digits_value (10 * acc + (of_char c - 48)) cs)
         else digits_value (10 * acc + (of_char c - 48)) (d # cs))
      else None)"

definition unsigned_value :: "string \<Rightarrow> nat option" where
  "unsigned_value s =
     (if s = [] \<or> length (filter is_digit s) > INT_MAX_STR_DIGITS then None
      else digits_value 0 s)"

definition ascii_int :: "string \<Rightarrow> int option" where
  "ascii_int s =
     (case strip s of
        [] \<Rightarrow> None
      | c # cs \<Rightarrow>
          if c = CHR ''-'' then map_option (\<lambda>n. - int n) (unsigned_value cs)
          else if c = CHR ''+'' then map_option int (unsigned_value cs)
          else map_option int (unsigned_value (c # cs)))"

text \<open>A worksheet whose row container holds the two header rows.\<close>

definition example_sheet_data :: xml where
  "example_sheet_data =
     Element (qname MAIN_NS ''sheetData'') [] None None
       [Element (qname MAIN_NS ''row'') [(''r'', ''1'')] None None [],
        Element (qname MAIN_NS ''row'') [(''r'', ''2'')] None None []]"

definition example_root :: xml where
  "example_root =
     Element (qname MAIN_NS ''worksheet'') [] None None
       [Element (qname MAIN_NS ''dimension'') [(''ref'', ''A1:G2'')] None None [],
        example_sheet_data]"

text \<open>A worksheet whose only row carries a negative index.\<close>

definition example_negative_sheet_data :: xml where
  "example_negative_sheet_data =
     Element (qname MAIN_NS ''sheetData'') [] None None
       [Element (qname MAIN_NS ''row'') [(''r'', ''-5'')] None None []]"

definition example_negative_root :: xml where
  "example_negative_root =
     Element (qname MAIN_NS ''worksheet'') [] None None [example_negative_sheet_data]"

definition example_template :: archive where
  "example_template =
     [(''[Content_Types].xml'', ''types''),
      (''xl/worksheets/sheet1.xml'', ''sheet''),
      (''xl/styles.xml'', ''styles'')]"


text \<open>
  A stand-in serialiser and parser for the concrete runs. The serialiser lists the
  index attributes of the rows in the tree; the parser knows two texts.
\<close>

definition example_tostring :: "xml \<Rightarrow> bytes" where
  "example_tostring t =
     concat (map (\<lambda>k. concat (map (\<lambda>r. (case map_of (attrib r) ''r'' of
                                            None \<Rightarrow> ''?'' | Some a \<Rightarrow> a) @ '','')
                                (children k)))
               (children t))"

definition example_fromstring :: "bytes \<Rightarrow> xml option" where
  "example_fromstring b =
     (if b = ''sheet'' then Some example_root
      else if b = ''negative'' then Some example_negative_root
      else None)"

section \<open>Facts about the normaliser\<close>

lemma normalized_matches: "re_match ERROR_PATTERN NORMALIZED_ERROR_MESSAGE"
  by (simp add: ERROR_PATTERN_def NORMALIZED_ERROR_MESSAGE_def PATTERN_HEAD_def PATTERN_TAIL_def)

lemma re_match_DotStar_Lit:
  "re_match [DotStar, Lit t] s \<longleftrightarrow> (\<exists>p r. s = p @ t @ r \<and> CHR 0x0A \<notin> set p)"
proof (induction s)
  case Nil
  show ?case by (auto simp: prefix_def)
next
  case (Cons c cs)
  note IH = Cons.IH
  show ?case
  proof
    assume "re_match [DotStar, Lit t] (c # cs)"
    then consider "c \<noteq> CHR 0x0A \<and> re_match [DotStar, Lit t] cs" | "prefix t (c # cs)"
      by auto
    then show "\<exists>p r. c # cs = p @ t @ r \<and> CHR 0x0A \<notin> set p"
    proof cases
      case 1
      then obtain p r where "cs = p @ t @ r" "CHR 0x0A \<notin> set p"
        using IH by auto
      with 1 have "c # cs = (c # p) @ t @ r \<and> CHR 0x0A \<notin> set (c # p)"
        by auto
      then show ?thesis by blast
    next
      case 2
      then obtain r where "c # cs = t @ r"
        by (auto simp: prefix_def)
      then have "c # cs = [] @ t @ r \<and> CHR 0x0A \<notin> set ([] :: string)"
        by simp
      then show ?thesis by blast
    qed
  next
    assume "\<exists>p r. c # cs = p @ t @ r \<and> CHR 0x0A \<notin> set p"
    then obtain p r where pr: "c # cs = p @ t @ r" "CHR 0x0A \<notin> set p"
      by blast
    show "re_match [DotStar, Lit t] (c # cs)"
    proof (cases p)
      case Nil
      with pr have "prefix t (c # cs)"
        by (simp add: prefix_def)
      then show ?thesis by simp
    next
      case (Cons a p')
      with pr have "c \<noteq> CHR 0x0A" and "cs = p' @ t @ r" and "CHR 0x0A \<notin> set p'"
        by auto
      then have "c \<noteq> CHR 0x0A \<and> re_match [DotStar, Lit t] cs"
        using IH by blast
      then show ?thesis by simp
    qed
  qed
qed

lemma re_match_ERROR_PATTERN:
  "re_match ERROR_PATTERN s \<longleftrightarrow>
     (\<exists>p r. s = PATTERN_HEAD @ p @ PATTERN_TAIL @ r \<and> CHR 0x0A \<notin> set p)"
proof
  assume "re_match ERROR_PATTERN s"
  then have h: "prefix PATTERN_HEAD s"
    and m: "re_match [DotStar, Lit PATTERN_TAIL] (drop (length PATTERN_HEAD) s)"
    by (simp_all add: ERROR_PATTERN_def)
  from h obtain z where z: "s = PATTERN_HEAD @ z"
    by (auto simp: prefix_def)
  with m have "re_match [DotStar, Lit PATTERN_TAIL] z"
    by simp
  then obtain p r where "z = p @ PATTERN_TAIL @ r" and "CHR 0x0A \<notin> set p"
    unfolding re_match_DotStar_Lit by blast
  with z show "\<exists>p r. s = PATTERN_HEAD @ p @ PATTERN_TAIL @ r \<and> CHR 0x0A \<notin> set p"
    by blast
next
  assume "\<exists>p r. s = PATTERN_HEAD @ p @ PATTERN_TAIL @ r \<and> CHR 0x0A \<notin> set p"
  then obtain p r where s: "s = PATTERN_HEAD @ p @ PATTERN_TAIL @ r" and n: "CHR 0x0A \<notin> set p"
    by blast
  from n have "re_match [DotStar, Lit PATTERN_TAIL] (p @ PATTERN_TAIL @ r)"
    unfolding re_match_DotStar_Lit by blast
  with s show "re_match ERROR_PATTERN s"
    by (simp add: ERROR_PATTERN_def)
qed

lemma marker_in_placeholder:
  "\<exists>a b. NORMALIZED_ERROR_MESSAGE = a @ ''{file_full_path}'' @ b"
  by (rule exI [of _ "''The specified file {''"],
      rule exI [of _ "''} does not exists or is not readable.: Invalid file''"])
     (simp add: NORMALIZED_ERROR_MESSAGE_def)

text \<open>
  Claim C5. Normalisation is idempotent: normalising a normalised message changes
  nothing, and the placeholder message normalises to itself.
\<close>

theorem normalize_idempotent:
  "normalize (normalize x) = normalize x \<and>
   normalize NORMALIZED_ERROR_MESSAGE = NORMALIZED_ERROR_MESSAGE"
  by (simp add: normalize_def normalized_matches)

theorem normalize_idempotent_witness:
  "normalize (normalize example_message) = normalize example_message"
  using normalize_idempotent [of example_message] by (rule conjunct1)

text \<open>
  Claim C4, as the code has it. A message is replaced by the placeholder exactly when
  it begins with the fixed head, a path free of line feeds and the fixed tail, whatever
  follows the tail; every other message is its own key. The placeholder contains the
  marker \<^verbatim>\<open>{file_full_path}\<close>. Two different messages share a key only when both
  match the pattern.
\<close>

theorem normalize_by_prefix:
  "normalize s =
     (if (\<exists>p r. s = PATTERN_HEAD @ p @ PATTERN_TAIL @ r \<and> CHR 0x0A \<notin> set p)
      then NORMALIZED_ERROR_MESSAGE else s)
   \<and> (\<exists>a b. NORMALIZED_ERROR_MESSAGE = a @ ''{file_full_path}'' @ b)
   \<and> (normalize s = normalize s' \<longrightarrow>
        s = s' \<or> (re_match ERROR_PATTERN s \<and> re_match ERROR_PATTERN s'))"
proof -
  have a: "normalize s =
     (if (\<exists>p r. s = PATTERN_HEAD @ p @ PATTERN_TAIL @ r \<and> CHR 0x0A \<notin> set p)
      then NORMALIZED_ERROR_MESSAGE else s)"
    unfolding normalize_def re_match_ERROR_PATTERN ..
  have c: "normalize s = normalize s' \<longrightarrow>
        s = s' \<or> (re_match ERROR_PATTERN s \<and> re_match ERROR_PATTERN s')"
    using normalized_matches by (auto simp: normalize_def split: if_splits)
  from a marker_in_placeholder c show ?thesis by blast
qed

theorem normalize_by_prefix_witness:
  "normalize example_message = normalize example_message_suffixed \<and>
   re_match ERROR_PATTERN example_message \<and> re_match ERROR_PATTERN example_message_suffixed"
proof -
  have h: "normalize example_message = normalize example_message_suffixed"
    by code_simp
  have n: "example_message \<noteq> example_message_suffixed"
    by code_simp
  from normalize_by_prefix [where s = example_message and s' = example_message_suffixed] h n
  show ?thesis by blast
qed

text \<open>
  Claim C4 as stated fails twice: a message that is not of the exact shape (text
  follows the tail) is replaced by the placeholder, and a message of the exact shape
  whose path holds a line feed is left as it is.
\<close>

theorem normalize_exact_shape_counterexample:
  "\<not> missing_file_shape example_message_suffixed \<and>
   normalize example_message_suffixed \<noteq> example_message_suffixed \<and>
   missing_file_shape example_message_newline \<and>
   normalize example_message_newline \<noteq> NORMALIZED_ERROR_MESSAGE"
  by code_simp


section \<open>Facts about the aggregation\<close>




lemma those_None: "those xs = None \<longleftrightarrow> None \<in> set xs"
  by (induction xs) (auto split: option.splits)







lemma ERROR_PATTERN_openai_eq: "ERROR_PATTERN_openai = ERROR_PATTERN"
  by (simp add: ERROR_PATTERN_openai_def ERROR_PATTERN_def PATTERN_HEAD_def PATTERN_TAIL_def)

lemma NORMALIZED_openai_eq: "NORMALIZED_ERROR_MESSAGE_openai = NORMALIZED_ERROR_MESSAGE"
  by (simp add: NORMALIZED_ERROR_MESSAGE_openai_def NORMALIZED_ERROR_MESSAGE_def)

lemma count_errors_openai_eq: "count_errors_openai d raw = count_errors d raw"
  by (induction raw arbitrary: d)
     (simp_all add: Let_def normalize_def ERROR_PATTERN_openai_eq NORMALIZED_openai_eq
        split: fetched.splits)

lemma count_errors_openai_fun_eq: "count_errors_openai = count_errors"
  by (intro ext) (rule count_errors_openai_eq)

text \<open>
  Claim C10. The two script variants compute the same statistics record for every
  database content: same counters, same error breakdown.
\<close>

theorem get_stats_variants_equal: "get_stats_openai path db = get_stats path db"
  unfolding get_stats_openai_def get_stats_def count_errors_openai_fun_eq by (rule refl)

theorem get_stats_variants_equal_witness:
  "get_stats_openai ''/fs/a.db'' example_db = Some example_stats"
proof -
  have h: "get_stats ''/fs/a.db'' example_db = Some example_stats"
    by code_simp
  show ?thesis using get_stats_variants_equal [of "''/fs/a.db''" example_db] h by simp
qed

section \<open>Facts about the report and the export rows\<close>

lemma sorted_errors_desc: "sorted_wrt (\<lambda>a b. snd b \<le> snd a) (sorted_errors bd)"
proof -
  have "sorted (map (\<lambda>it. - snd it) (sort_key (\<lambda>it. - snd it) bd))"
    by (rule sorted_sort_key)
  then show ?thesis
    by (simp add: sorted_errors_def sorted_map)
qed

lemma sorted_errors_stable:
  "filter (\<lambda>it. snd it = k) (sorted_errors bd) = filter (\<lambda>it. snd it = k) bd"
proof -
  have "filter (\<lambda>it. - snd it = - k) (sort_key (\<lambda>it. - snd it) bd) =
        filter (\<lambda>it. - snd it = - k) bd"
    by (rule sort_key_stable)
  then show ?thesis
    by (simp add: sorted_errors_def)
qed

lemma mset_sorted_errors: "mset (sorted_errors bd) = mset bd"
  by (simp add: sorted_errors_def)

lemma length_sorted_errors: "length (sorted_errors bd) = length bd"
  by (simp add: sorted_errors_def)

lemma or_str_chain: "or_str a (or_str b []) = (if a \<noteq> [] then a else b)"
  by (simp add: or_str_def)

lemma excel_rows_of_explicit:
  "excel_rows_of s fs =
     (if error_message_breakdown s = []
      then [[PyStr fs, PyStr (if db_path s \<noteq> [] then db_path s else db_name s),
             PyInt (total_rows s), PyInt (is_done_1_count s), PyInt (is_done_0_count s),
             PyStr [], PyInt 0]]
      else map (\<lambda>(msg, count).
                 [PyStr fs, PyStr (if db_path s \<noteq> [] then db_path s else db_name s),
                  PyInt (total_rows s), PyInt (is_done_1_count s), PyInt (is_done_0_count s),
                  PyStr msg, PyInt count])
             (sorted_errors (error_message_breakdown s)))"
  by (cases "error_message_breakdown s = []") (simp_all add: excel_rows_of_def Let_def or_str_chain)

lemma csv_rows_of_explicit:
  "csv_rows_of s fs =
     (if error_message_breakdown s = []
      then [[PyStr fs, PyStr (db_path s), PyInt (total_rows s), PyInt (is_done_1_count s),
             PyInt (is_done_0_count s), PyStr [], PyInt 0]]
      else map (\<lambda>(msg, count).
                 [PyStr fs, PyStr (db_path s), PyInt (total_rows s), PyInt (is_done_1_count s),
                  PyInt (is_done_0_count s),
                  PyStr (filter (\<lambda>c. c \<noteq> CHR 0x0D)
                           (map (\<lambda>c. if c = CHR 0x0A then CHR 0x20 else c) msg)),
                  PyInt count])
             (sorted_errors (error_message_breakdown s)))"
  by (cases "error_message_breakdown s = []") (simp_all add: csv_rows_of_def Let_def clean_msg_def)

lemma build_excel_rows_concat:
  "build_excel_rows all_stats fs = concat (map (\<lambda>s. excel_rows_of s fs) all_stats)"
  by (induction all_stats) simp_all

lemma export_to_excel_csv_concat:
  "export_to_excel_csv all_stats fs = concat (map (\<lambda>s. csv_rows_of s fs) all_stats)"
  by (induction all_stats) simp_all

lemma length_excel_rows_of:
  "length (excel_rows_of s fs) =
     (if error_message_breakdown s = [] then 1 else length (error_message_breakdown s))"
  by (simp add: excel_rows_of_explicit length_sorted_errors)

lemma length_csv_rows_of:
  "length (csv_rows_of s fs) =
     (if error_message_breakdown s = [] then 1 else length (error_message_breakdown s))"
  by (simp add: csv_rows_of_explicit length_sorted_errors)

lemma excel_rows_of_nonempty: "excel_rows_of s fs \<noteq> []"
proof -
  have "0 < length (excel_rows_of s fs)"
    by (simp add: length_excel_rows_of)
  then show ?thesis by auto
qed

lemma csv_rows_of_nonempty: "csv_rows_of s fs \<noteq> []"
proof -
  have "0 < length (csv_rows_of s fs)"
    by (simp add: length_csv_rows_of)
  then show ?thesis by auto
qed

lemma build_excel_rows_empty: "build_excel_rows all_stats fs = [] \<longleftrightarrow> all_stats = []"
  by (cases all_stats) (simp_all add: excel_rows_of_nonempty)

lemma length_build_excel_rows_ge: "length all_stats \<le> length (build_excel_rows all_stats fs)"
proof (induction all_stats)
  case Nil
  show ?case by simp
next
  case (Cons s rest)
  have "1 \<le> length (excel_rows_of s fs)"
    by (simp add: length_excel_rows_of Suc_le_eq)
  with Cons show ?case by simp
qed

lemma length_export_to_excel_csv_ge:
  "length all_stats \<le> length (export_to_excel_csv all_stats fs)"
proof (induction all_stats)
  case Nil
  show ?case by simp
next
  case (Cons s rest)
  have "1 \<le> length (csv_rows_of s fs)"
    by (simp add: length_csv_rows_of Suc_le_eq)
  with Cons show ?case by simp
qed

text \<open>
  Claim C2. The export rows are the rows of the statistics records one after another.
  A record with an empty error breakdown yields exactly one row, with an empty message
  and count zero; a record with N buckets yields exactly N rows, one per bucket, by
  count descending, all with the counters of the record. So every record contributes
  at least one row. This holds of the rows of \<^verbatim>\<open>_build_excel_rows\<close> and of the rows that
  \<^verbatim>\<open>export_to_excel_csv\<close> writes.
\<close>

theorem export_rows_per_record:
  "build_excel_rows all_stats fs =
     concat (map (\<lambda>s.
       if error_message_breakdown s = []
       then [[PyStr fs, PyStr (if db_path s \<noteq> [] then db_path s else db_name s),
              PyInt (total_rows s), PyInt (is_done_1_count s), PyInt (is_done_0_count s),
              PyStr [], PyInt 0]]
       else map (\<lambda>(msg, count).
                  [PyStr fs, PyStr (if db_path s \<noteq> [] then db_path s else db_name s),
                   PyInt (total_rows s), PyInt (is_done_1_count s), PyInt (is_done_0_count s),
                   PyStr msg, PyInt count])
              (sorted_errors (error_message_breakdown s))) all_stats)
   \<and> export_to_excel_csv all_stats fs =
     concat (map (\<lambda>s.
       if error_message_breakdown s = []
       then [[PyStr fs, PyStr (db_path s), PyInt (total_rows s), PyInt (is_done_1_count s),
              PyInt (is_done_0_count s), PyStr [], PyInt 0]]
       else map (\<lambda>(msg, count).
                  [PyStr fs, PyStr (db_path s), PyInt (total_rows s), PyInt (is_done_1_count s),
                   PyInt (is_done_0_count s),
                   PyStr (filter (\<lambda>c. c \<noteq> CHR 0x0D)
                            (map (\<lambda>c. if c = CHR 0x0A then CHR 0x20 else c) msg)),
                   PyInt count])
              (sorted_errors (error_message_breakdown s))) all_stats)
   \<and> length (build_excel_rows [s] fs) =
       (if error_message_breakdown s = [] then 1 else length (error_message_breakdown s))
   \<and> length (export_to_excel_csv [s] fs) =
       (if error_message_breakdown s = [] then 1 else length (error_message_breakdown s))
   \<and> mset (sorted_errors bd) = mset bd
   \<and> sorted_wrt (\<lambda>a b. snd b \<le> snd a) (sorted_errors bd)
   \<and> length all_stats \<le> length (build_excel_rows all_stats fs)
   \<and> length all_stats \<le> length (export_to_excel_csv all_stats fs)"
proof -
  have a: "build_excel_rows all_stats fs =
     concat (map (\<lambda>s.
       if error_message_breakdown s = []
       then [[PyStr fs, PyStr (if db_path s \<noteq> [] then db_path s else db_name s),
              PyInt (total_rows s), PyInt (is_done_1_count s), PyInt (is_done_0_count s),
              PyStr [], PyInt 0]]
       else map (\<lambda>(msg, count).
                  [PyStr fs, PyStr (if db_path s \<noteq> [] then db_path s else db_name s),
                   PyInt (total_rows s), PyInt (is_done_1_count s), PyInt (is_done_0_count s),
                   PyStr msg, PyInt count])
              (sorted_errors (error_message_breakdown s))) all_stats)"
    unfolding build_excel_rows_concat excel_rows_of_explicit by (rule refl)
  have b: "export_to_excel_csv all_stats fs =
     concat (map (\<lambda>s.
       if error_message_breakdown s = []
       then [[PyStr fs, PyStr (db_path s), PyInt (total_rows s), PyInt (is_done_1_count s),
              PyInt (is_done_0_count s), PyStr [], PyInt 0]]
       else map (\<lambda>(msg, count).
                  [PyStr fs, PyStr (db_path s), PyInt (total_rows s), PyInt (is_done_1_count s),
                   PyInt (is_done_0_count s),
                   PyStr (filter (\<lambda>c. c \<noteq> CHR 0x0D)
                            (map (\<lambda>c. if c = CHR 0x0A then CHR 0x20 else c) msg)),
                   PyInt count])
              (sorted_errors (error_message_breakdown s))) all_stats)"
    unfolding export_to_excel_csv_concat csv_rows_of_explicit by (rule refl)
  have c: "length (build_excel_rows [s] fs) =
       (if error_message_breakdown s = [] then 1 else length (error_message_breakdown s))"
    by (simp add: length_excel_rows_of)
  have d: "length (export_to_excel_csv [s] fs) =
       (if error_message_breakdown s = [] then 1 else length (error_message_breakdown s))"
    by (simp add: length_csv_rows_of)
  from a b c d mset_sorted_errors [of bd] sorted_errors_desc [of bd]
    length_build_excel_rows_ge [of all_stats fs] length_export_to_excel_csv_ge [of all_stats fs]
  show ?thesis
    by (intro conjI)
qed

theorem export_rows_per_record_witness:
  "build_excel_rows [example_empty, example_two] ''FS1'' =
     [[PyStr ''FS1'', PyStr ''/fs/b.db'', PyInt 4, PyInt 4, PyInt 0, PyStr [], PyInt 0],
      [PyStr ''FS1'', PyStr ''/fs/c.db'', PyInt 9, PyInt 4, PyInt 5, PyStr ''timeout'', PyInt 3],
      [PyStr ''FS1'', PyStr ''/fs/c.db'', PyInt 9, PyInt 4, PyInt 5, PyStr ''disk full'', PyInt 2]]"
  unfolding export_rows_per_record
    [where all_stats = "[example_empty, example_two]" and fs = "''FS1''" and s = example_empty
       and bd = "[]", THEN conjunct1]
  by code_simp

lemma length_NORMALIZED: "length NORMALIZED_ERROR_MESSAGE = 87"
  by (simp add: NORMALIZED_ERROR_MESSAGE_def)

lemma display_explicit:
  "display msg =
     (if msg = NORMALIZED_ERROR_MESSAGE then MISSING_FILE_LABEL
      else if length msg > 80 then take 77 msg @ ''...'' else msg)"
  by (simp add: display_def Let_def)

lemma format_stats_report_explicit:
  "format_stats_report all_stats =
     map (\<lambda>s. map (\<lambda>(msg, cnt).
                     (if msg = NORMALIZED_ERROR_MESSAGE then MISSING_FILE_LABEL
                      else if length msg > 80 then take 77 msg @ ''...'' else msg, cnt))
                 (sorted_errors (error_message_breakdown s)))
       (filter (\<lambda>s. error_message_breakdown s \<noteq> []) all_stats)"
  by (induction all_stats) (simp_all add: err_rows_def display_explicit)

text \<open>
  Claim C9, as the code has it. The error detail rows of each record with errors are
  ordered by count descending and rows of equal count keep their encounter order. On
  the console the placeholder message, which is 87 characters long, is shown as a
  fixed label; any other message longer than 80 characters is cut to its first 77
  characters followed by three dots, and a message of at most 80 characters is shown
  whole. The spreadsheet rows carry each message as it is; the CSV rows carry it with
  every line feed turned into a space and every carriage return removed.
\<close>

theorem error_detail_rows:
  "format_stats_report all_stats =
     map (\<lambda>s. map (\<lambda>(msg, cnt).
                     (if msg = NORMALIZED_ERROR_MESSAGE then MISSING_FILE_LABEL
                      else if length msg > 80 then take 77 msg @ ''...'' else msg, cnt))
                 (sorted_errors (error_message_breakdown s)))
       (filter (\<lambda>s. error_message_breakdown s \<noteq> []) all_stats)
   \<and> length NORMALIZED_ERROR_MESSAGE = 87
   \<and> sorted_wrt (\<lambda>a b. snd b \<le> snd a) (sorted_errors bd)
   \<and> (\<forall>k. filter (\<lambda>it. snd it = k) (sorted_errors bd) = filter (\<lambda>it. snd it = k) bd)
   \<and> mset (sorted_errors bd) = mset bd
   \<and> (error_message_breakdown s \<noteq> [] \<longrightarrow>
        map (\<lambda>row. row ! 5) (build_excel_rows [s] fs) =
          map (\<lambda>it. PyStr (fst it)) (sorted_errors (error_message_breakdown s)) \<and>
        map (\<lambda>row. row ! 5) (export_to_excel_csv [s] fs) =
          map (\<lambda>it. PyStr (filter (\<lambda>c. c \<noteq> CHR 0x0D)
                             (map (\<lambda>c. if c = CHR 0x0A then CHR 0x20 else c) (fst it))))
            (sorted_errors (error_message_breakdown s)))"
proof -
  have f: "error_message_breakdown s \<noteq> [] \<longrightarrow>
        map (\<lambda>row. row ! 5) (build_excel_rows [s] fs) =
          map (\<lambda>it. PyStr (fst it)) (sorted_errors (error_message_breakdown s)) \<and>
        map (\<lambda>row. row ! 5) (export_to_excel_csv [s] fs) =
          map (\<lambda>it. PyStr (filter (\<lambda>c. c \<noteq> CHR 0x0D)
                             (map (\<lambda>c. if c = CHR 0x0A then CHR 0x20 else c) (fst it))))
            (sorted_errors (error_message_breakdown s))"
    by (simp add: excel_rows_of_explicit csv_rows_of_explicit split_def comp_def)
  have st: "\<forall>k. filter (\<lambda>it. snd it = k) (sorted_errors bd) = filter (\<lambda>it. snd it = k) bd"
    by (simp add: sorted_errors_stable)
  from format_stats_report_explicit [of all_stats] length_NORMALIZED sorted_errors_desc [of bd] st
    mset_sorted_errors [of bd] f
  show ?thesis
    by (intro conjI)
qed

theorem error_detail_rows_witness:
  "error_message_breakdown example_crlf \<noteq> [] \<and>
   map (\<lambda>row. row ! 5) (build_excel_rows [example_crlf] ''FS1'') =
     [PyStr (''line one'' @ [CHR 0x0D, CHR 0x0A] @ ''line two'')] \<and>
   map (\<lambda>row. row ! 5) (export_to_excel_csv [example_crlf] ''FS1'') =
     [PyStr ''line one line two'']"
proof -
  have n: "error_message_breakdown example_crlf \<noteq> []"
    by (simp add: example_crlf_def)
  from error_detail_rows [where s = example_crlf and fs = "''FS1''" and bd = "[]"
      and all_stats = "[]"] n
  have a: "map (\<lambda>row. row ! 5) (build_excel_rows [example_crlf] ''FS1'') =
          map (\<lambda>it. PyStr (fst it)) (sorted_errors (error_message_breakdown example_crlf))"
    and b: "map (\<lambda>row. row ! 5) (export_to_excel_csv [example_crlf] ''FS1'') =
          map (\<lambda>it. PyStr (filter (\<lambda>c. c \<noteq> CHR 0x0D)
                             (map (\<lambda>c. if c = CHR 0x0A then CHR 0x20 else c) (fst it))))
            (sorted_errors (error_message_breakdown example_crlf))"
    by blast+
  have a': "map (\<lambda>it. PyStr (fst it)) (sorted_errors (error_message_breakdown example_crlf)) =
      [PyStr (''line one'' @ [CHR 0x0D, CHR 0x0A] @ ''line two'')]"
    by code_simp
  have b': "map (\<lambda>it. PyStr (filter (\<lambda>c. c \<noteq> CHR 0x0D)
                             (map (\<lambda>c. if c = CHR 0x0A then CHR 0x20 else c) (fst it))))
            (sorted_errors (error_message_breakdown example_crlf)) =
      [PyStr ''line one line two'']"
    by code_simp
  from n a b a' b' show ?thesis by simp
qed

text \<open>
  Claim C9 as stated fails twice: the placeholder message is longer than 80 characters
  and is not shown as its first 77 characters and three dots, and the CSV row of a
  message with a line break does not carry the message of the breakdown.
\<close>

theorem display_and_csv_counterexample:
  "length NORMALIZED_ERROR_MESSAGE > 80 \<and>
   display NORMALIZED_ERROR_MESSAGE \<noteq> take 77 NORMALIZED_ERROR_MESSAGE @ ''...'' \<and>
   error_message_breakdown example_crlf = [(''line one'' @ [CHR 0x0D, CHR 0x0A] @ ''line two'', 1)] \<and>
   csv_rows_of example_crlf ''FS1'' =
     [[PyStr ''FS1'', PyStr ''/fs/d.db'', PyInt 1, PyInt 0, PyInt 1, PyStr ''line one line two'', PyInt 1]]"
  by code_simp

section \<open>Facts about the spreadsheet exporter\<close>

subsection \<open>Decimal text\<close>

lemma is_digit_char_of: "d < 10 \<Longrightarrow> is_digit (char_of (48 + d :: nat))"
  by (simp add: is_digit_def)

lemma str_nat_digits: "\<forall>c \<in> set (str_nat n). is_digit c"
proof (induction n rule: str_nat.induct)
  case (1 n)
  show ?case
  proof (cases "n < 10")
    case True
    then show ?thesis by (subst str_nat.simps) (simp add: is_digit_char_of)
  next
    case False
    with 1 show ?thesis by (subst str_nat.simps) (simp add: is_digit_char_of)
  qed
qed

lemma str_nat_nonempty: "str_nat n \<noteq> []"
  by (subst str_nat.simps) simp

lemma foldl_str_nat: "foldl (\<lambda>a c. 10 * a + (of_char c - 48)) 0 (str_nat n) = n"
proof (induction n rule: str_nat.induct)
  case (1 n)
  show ?case
  proof (cases "n < 10")
    case True
    then show ?thesis by (subst str_nat.simps) simp
  next
    case False
    with 1 show ?thesis by (subst str_nat.simps) simp
  qed
qed

lemma str_nat_inj: "str_nat a = str_nat b \<Longrightarrow> a = b"
  by (metis foldl_str_nat)

lemma str_nat_no_minus: "str_nat n \<noteq> CHR ''-'' # xs"
proof
  assume "str_nat n = CHR ''-'' # xs"
  then have "CHR ''-'' \<in> set (str_nat n)"
    by simp
  then have "is_digit CHR ''-''"
    using str_nat_digits [of n] by blast
  then show False
    by (simp add: is_digit_def)
qed

lemma decimal_text_inj: "decimal_text a = decimal_text b \<Longrightarrow> a = b"
proof -
  assume eq: "decimal_text a = decimal_text b"
  consider "a < 0" "b < 0" | "a < 0" "\<not> b < 0" | "\<not> a < 0" "b < 0" | "\<not> a < 0" "\<not> b < 0"
    by blast
  then show "a = b"
  proof cases
    case 1
    with eq have "nat (- a) = nat (- b)"
      by (simp add: decimal_text_def str_nat_inj)
    with 1 show ?thesis by simp
  next
    case 2
    with eq have "str_nat (nat b) = CHR ''-'' # str_nat (nat (- a))"
      by (simp add: decimal_text_def)
    then show ?thesis
      using str_nat_no_minus by blast
  next
    case 3
    with eq have "str_nat (nat a) = CHR ''-'' # str_nat (nat (- b))"
      by (simp add: decimal_text_def)
    then show ?thesis
      using str_nat_no_minus by blast
  next
    case 4
    with eq have "nat a = nat b"
      by (simp add: decimal_text_def str_nat_inj)
    with 4 show ?thesis by simp
  qed
qed

lemma digits_lower: "10 ^ k \<le> n \<Longrightarrow> k < length (str_nat n)"
proof (induction k arbitrary: n)
  case 0
  show ?case
    using str_nat_nonempty [of n] by simp
next
  case (Suc k)
  then have m: "10 * 10 ^ k \<le> n"
    by simp
  have p: "(1::nat) \<le> 10 ^ k"
    by simp
  from m p have ge: "\<not> n < 10"
    by arith
  from m have d: "10 ^ k \<le> n div 10"
    by arith
  from ge have "str_nat n = str_nat (n div 10) @ [char_of (48 + n mod 10)]"
    by (subst str_nat.simps) simp
  with Suc.IH [OF d] show ?case by simp
qed

lemma str_int_huge: "str_int (10 ^ INT_MAX_STR_DIGITS) = Inl ValueError"
proof -
  have "nat \<bar>(10::int) ^ INT_MAX_STR_DIGITS\<bar> = 10 ^ INT_MAX_STR_DIGITS"
    by (simp add: nat_power_eq)
  then have "INT_MAX_STR_DIGITS < length (str_nat (nat \<bar>(10::int) ^ INT_MAX_STR_DIGITS\<bar>))"
    by (simp add: digits_lower)
  then show ?thesis
    by (simp add: str_int_def)
qed

subsection \<open>Cells\<close>

text \<open>
  Claim C6, as the code has it. \<^verbatim>\<open>None\<close> and the empty string give a cell without any
  child. A number, that is an integer, a float or a boolean, gives a cell with one value
  child holding the text that \<^verbatim>\<open>str\<close> gives for it; for an integer this is its decimal
  text, and for an integer of more digits than the conversion limit \<^verbatim>\<open>str\<close> raises
  \<^verbatim>\<open>ValueError\<close> and no cell is built. Every other value is a non-empty string, a blank
  one included, and gives a cell marked as inline text with the text two levels down.
\<close>

theorem cell_value_typing:
  "((v = PyNone \<or> v = PyStr []) \<longrightarrow>
      make_cell cell_ref v =
        Inr (Element (qname MAIN_NS ''c'') [(''r'', cell_ref), (''s'', ''2'')] None None []))
   \<and> make_cell cell_ref (PyInt n) =
        (if length (str_nat (nat \<bar>n\<bar>)) \<le> INT_MAX_STR_DIGITS
         then Inr (Element (qname MAIN_NS ''c'') [(''r'', cell_ref), (''s'', ''2'')] None None
                     [Element (qname MAIN_NS ''v'') [] (Some (decimal_text n)) None []])
         else Inl ValueError)
   \<and> make_cell cell_ref (PyFloat f) =
        Inr (Element (qname MAIN_NS ''c'') [(''r'', cell_ref), (''s'', ''2'')] None None
               [Element (qname MAIN_NS ''v'') [] (Some f) None []])
   \<and> make_cell cell_ref (PyBool b) =
        Inr (Element (qname MAIN_NS ''c'') [(''r'', cell_ref), (''s'', ''2'')] None None
               [Element (qname MAIN_NS ''v'') [] (Some (if b then ''True'' else ''False'')) None []])
   \<and> (v \<noteq> PyNone \<and> v \<noteq> PyStr [] \<and> \<not> is_number v \<longrightarrow>
        (\<exists>t. v = PyStr t \<and> t \<noteq> [] \<and>
          make_cell cell_ref v =
            Inr (Element (qname MAIN_NS ''c'')
                   [(''r'', cell_ref), (''s'', ''2''), (''t'', ''inlineStr'')] None None
                   [Element (qname MAIN_NS ''is'') [] None None
                      [Element (qname MAIN_NS ''t'') [] (Some t) None []]])))"
proof -
  have a: "(v = PyNone \<or> v = PyStr []) \<longrightarrow>
      make_cell cell_ref v =
        Inr (Element (qname MAIN_NS ''c'') [(''r'', cell_ref), (''s'', ''2'')] None None [])"
    by (auto simp: make_cell_def)
  have b: "make_cell cell_ref (PyInt n) =
        (if length (str_nat (nat \<bar>n\<bar>)) \<le> INT_MAX_STR_DIGITS
         then Inr (Element (qname MAIN_NS ''c'') [(''r'', cell_ref), (''s'', ''2'')] None None
                     [Element (qname MAIN_NS ''v'') [] (Some (decimal_text n)) None []])
         else Inl ValueError)"
    by (simp add: make_cell_def is_number_def py_str_def str_int_def)
  have c: "make_cell cell_ref (PyFloat f) =
        Inr (Element (qname MAIN_NS ''c'') [(''r'', cell_ref), (''s'', ''2'')] None None
               [Element (qname MAIN_NS ''v'') [] (Some f) None []])"
    by (simp add: make_cell_def is_number_def py_str_def)
  have d: "make_cell cell_ref (PyBool b) =
        Inr (Element (qname MAIN_NS ''c'') [(''r'', cell_ref), (''s'', ''2'')] None None
               [Element (qname MAIN_NS ''v'') [] (Some (if b then ''True'' else ''False'')) None []])"
    by (simp add: make_cell_def is_number_def py_str_def)
  have e: "v \<noteq> PyNone \<and> v \<noteq> PyStr [] \<and> \<not> is_number v \<longrightarrow>
        (\<exists>t. v = PyStr t \<and> t \<noteq> [] \<and>
          make_cell cell_ref v =
            Inr (Element (qname MAIN_NS ''c'')
                   [(''r'', cell_ref), (''s'', ''2''), (''t'', ''inlineStr'')] None None
                   [Element (qname MAIN_NS ''is'') [] None None
                      [Element (qname MAIN_NS ''t'') [] (Some t) None []]]))"
    by (cases v) (simp_all add: make_cell_def is_number_def py_str_def)
  from a b c d e show ?thesis
    by (intro conjI)
qed

theorem cell_value_typing_witness:
  "make_cell ''F3'' (PyStr []) =
     Inr (Element (qname MAIN_NS ''c'') [(''r'', ''F3''), (''s'', ''2'')] None None []) \<and>
   (\<exists>t. PyStr ''disk full'' = PyStr t \<and> t \<noteq> [] \<and>
      make_cell ''F3'' (PyStr ''disk full'') =
        Inr (Element (qname MAIN_NS ''c'')
               [(''r'', ''F3''), (''s'', ''2''), (''t'', ''inlineStr'')] None None
               [Element (qname MAIN_NS ''is'') [] None None
                  [Element (qname MAIN_NS ''t'') [] (Some t) None []]]))"
proof -
  have a: "PyStr [] = PyNone \<or> PyStr [] = PyStr []"
    by simp
  have b: "PyStr ''disk full'' \<noteq> PyNone \<and> PyStr ''disk full'' \<noteq> PyStr [] \<and>
           \<not> is_number (PyStr ''disk full'')"
    by (simp add: is_number_def)
  from cell_value_typing [where cell_ref = "''F3''" and v = "PyStr []"] a
  have x: "make_cell ''F3'' (PyStr []) =
     Inr (Element (qname MAIN_NS ''c'') [(''r'', ''F3''), (''s'', ''2'')] None None [])"
    by blast
  from cell_value_typing [where cell_ref = "''F3''" and v = "PyStr ''disk full''"] b
  have y: "\<exists>t. PyStr ''disk full'' = PyStr t \<and> t \<noteq> [] \<and>
      make_cell ''F3'' (PyStr ''disk full'') =
        Inr (Element (qname MAIN_NS ''c'')
               [(''r'', ''F3''), (''s'', ''2''), (''t'', ''inlineStr'')] None None
               [Element (qname MAIN_NS ''is'') [] None None
                  [Element (qname MAIN_NS ''t'') [] (Some t) None []]])"
    by blast
  from x y show ?thesis by (rule conjI)
qed

text \<open>
  Claim C6 as stated fails on a blank string and on a very large number: the cell of a
  single space is an inline text cell with a child, not an empty cell, and the integer
  with 4301 digits gets no cell at all.
\<close>

theorem blank_cell_counterexample:
  "make_cell ''F3'' (PyStr '' '') =
     Inr (Element (qname MAIN_NS ''c'') [(''r'', ''F3''), (''s'', ''2''), (''t'', ''inlineStr'')]
            None None
            [Element (qname MAIN_NS ''is'') [] None None
               [Element (qname MAIN_NS ''t'') [] (Some '' '') None []]]) \<and>
   make_cell ''C3'' (PyInt (10 ^ INT_MAX_STR_DIGITS)) = Inl ValueError"
  by (simp add: make_cell_def is_number_def py_str_def str_int_huge)

subsection \<open>The empty export\<close>

text \<open>
  Claim C8. When the statistics records yield no export row, the export raises
  \<^verbatim>\<open>ValueError\<close> and produces no archive, whatever the template is and even when no
  template can be opened; this happens exactly when there is no statistics record.
\<close>

theorem empty_export_fails:
  "(build_excel_rows all_stats fs = [] \<longrightarrow>
      export_stats_to_excel int_of_str fromstring tostring template all_stats fs = Inl ValueError)
   \<and> (build_excel_rows all_stats fs = [] \<longleftrightarrow> all_stats = [])"
  by (simp add: export_stats_to_excel_def build_excel_rows_empty Let_def)

theorem empty_export_fails_witness:
  "export_stats_to_excel ascii_int example_fromstring example_tostring None [] ''FS1'' =
     Inl ValueError"
proof -
  have h: "build_excel_rows [] ''FS1'' = []"
    by simp
  from empty_export_fails [where all_stats = "[]" and fs = "''FS1''" and template = None
      and int_of_str = ascii_int and fromstring = example_fromstring
      and tostring = example_tostring] h
  show ?thesis by blast
qed

subsection \<open>The appended rows\<close>

lemma collect_Inr_D: "collect xs = Inr ys \<Longrightarrow> xs = map Inr ys"
  by (induction xs arbitrary: ys) (auto split: sum.splits)

lemma make_row_Inr:
  assumes "make_row k vals = Inr e"
  shows "tag e = qname MAIN_NS ''row'' \<and>
         attrib e = [(''r'', decimal_text k), (''spans'', ''1:7''),
                     (qname AC_NS ''dyDescent'', ''0.25'')] \<and>
         length (children e) = length vals"
proof -
  from assms obtain index_text cells where
    i: "str_int k = Inr index_text" and
    c: "collect (map (\<lambda>(col_idx, value).
                        make_cell (col_idx_to_name (int col_idx) @ index_text) value)
                   (enumerate 1 vals)) = Inr cells" and
    e: "e = Element (qname MAIN_NS ''row'')
              [(''r'', index_text), (''spans'', ''1:7''), (qname AC_NS ''dyDescent'', ''0.25'')]
              None None cells"
    by (auto simp: make_row_def split: sum.splits)
  from i have t: "index_text = decimal_text k"
    by (auto simp: str_int_def split: if_splits)
  from collect_Inr_D [OF c] have "length (enumerate 1 vals) = length cells"
    by (metis length_map)
  then have "length cells = length vals"
    by simp
  with e t show ?thesis by simp
qed

lemma new_rows_nth:
  assumes "new_rows int_of_str sd rows = Inr appended"
  shows "length appended = length rows \<and>
         (\<forall>j < length rows.
            make_row (start_row int_of_str sd + int j) (rows ! j) = Inr (appended ! j))"
proof -
  let ?F = "\<lambda>(i, row_values). make_row (start_row int_of_str sd + int i) row_values"
  from assms have eq: "map ?F (enumerate 0 rows) = map Inr appended"
    by (simp add: new_rows_def collect_Inr_D)
  then have "length (enumerate 0 rows) = length appended"
    by (metis length_map)
  then have len: "length appended = length rows"
    by simp
  have "\<forall>j < length rows.
          make_row (start_row int_of_str sd + int j) (rows ! j) = Inr (appended ! j)"
  proof (intro allI impI)
    fix j
    assume j: "j < length rows"
    from eq have "map ?F (enumerate 0 rows) ! j = map Inr appended ! j"
      by simp
    with j len show "make_row (start_row int_of_str sd + int j) (rows ! j) = Inr (appended ! j)"
      by (simp add: nth_enumerate_eq)
  qed
  with len show ?thesis by simp
qed

lemma max_row_index_fold:
  "max_row_index int_of_str m rs = fold max (List.map_filter (row_r int_of_str) rs) m"
  by (induction rs arbitrary: m) (auto simp: List.map_filter_simps max_def split: option.splits)

lemma start_row_Max:
  "start_row int_of_str sd = Max (insert 0 (set (existing_indices int_of_str sd))) + 1"
proof -
  have "max_row_index int_of_str 0 (findall (qname MAIN_NS ''row'') sd) =
        Max (set (0 # existing_indices int_of_str sd))"
    unfolding max_row_index_fold existing_indices_def by (rule Max.set_eq_fold [symmetric])
  then show ?thesis
    by (simp add: start_row_def Let_def)
qed

lemma find_first_Some:
  "find_first t ks = Some (pre, k, post) \<Longrightarrow>
     ks = pre @ k # post \<and> (\<forall>x \<in> set pre. tag x \<noteq> t) \<and> tag k = t"
proof (induction ks arbitrary: pre)
  case Nil
  then show ?case by simp
next
  case (Cons a ks)
  show ?case
  proof (cases "tag a = t")
    case True
    with Cons.prems show ?thesis by simp
  next
    case False
    with Cons.prems obtain pre' where f: "find_first t ks = Some (pre', k, post)"
      and p: "pre = a # pre'"
      by (auto split: prod.splits)
    from Cons.IH [OF f] False p show ?thesis by simp
  qed
qed

subsection \<open>The output archive\<close>

lemma zip_read_None: "zip_read zin n = None \<longleftrightarrow> n \<notin> fst ` set zin"
  by (induction zin) (auto split: option.splits)

lemma zip_read_in: "zip_read zin n = Some d \<Longrightarrow> (n, d) \<in> set zin"
  by (induction zin) (auto split: option.splits if_splits)

lemma zip_read_all:
  assumes "n \<in> fst ` set z" and "\<forall>d'. (n, d') \<in> set z \<longrightarrow> d' = d"
  shows "zip_read z n = Some d"
proof -
  from assms(1) obtain d'' where r: "zip_read z n = Some d''"
    using zip_read_None [of z n] by (cases "zip_read z n") auto
  from zip_read_in [OF r] assms(2) have "d'' = d"
    by blast
  with r show ?thesis by simp
qed


lemma copy_parts_rel:
  "copy_parts zin new items = Inr zout \<Longrightarrow> list_all2 (copied zin new) items zout"
proof (induction items arbitrary: zout)
  case Nil
  then show ?case by simp
next
  case (Cons it items)
  obtain filename content where it: "it = (filename, content)"
    by (cases it)
  from Cons.prems it obtain data_bytes rest where
    zr: "zip_read zin filename = Some data_bytes" and
    cp: "copy_parts zin new items = Inr rest" and
    zo: "zout = (filename, if filename = SHEET_PART then new else data_bytes) # rest"
    by (auto split: option.splits sum.splits)
  from it zr have "copied zin new it (filename, if filename = SHEET_PART then new else data_bytes)"
    by (simp add: copied_def)
  with Cons.IH [OF cp] zo show ?case
    by simp
qed

lemma copy_parts_output:
  assumes c: "copy_parts zin new zin = Inr zout" and z: "zip_read zin SHEET_PART = Some x"
  shows "map fst zout = map fst zin
     \<and> zip_read zout SHEET_PART = Some new
     \<and> (\<forall>i < length zin. fst (zin ! i) = SHEET_PART \<longrightarrow> snd (zout ! i) = new)
     \<and> (\<forall>i < length zin. fst (zin ! i) \<noteq> SHEET_PART \<longrightarrow>
          zip_read zin (fst (zin ! i)) = Some (snd (zout ! i)))"
proof -
  note r = copy_parts_rel [OF c]
  from r have len: "length zin = length zout"
    by (rule list_all2_lengthD)
  have nth: "fst (zout ! i) = fst (zin ! i) \<and>
      (if fst (zin ! i) = SHEET_PART then snd (zout ! i) = new
       else zip_read zin (fst (zin ! i)) = Some (snd (zout ! i)))" if "i < length zin" for i
  proof -
    from r that have "copied zin new (zin ! i) (zout ! i)"
      by (rule list_all2_nthD)
    then show ?thesis
      by (simp add: copied_def)
  qed
  have names: "map fst zout = map fst zin"
    using len nth by (simp add: list_eq_iff_nth_eq)
  from z have "SHEET_PART \<in> fst ` set zin"
    using zip_read_None [of zin SHEET_PART] by auto
  then have "SHEET_PART \<in> set (map fst zin)"
    by simp
  with names have m: "SHEET_PART \<in> fst ` set zout"
    by (metis set_map)
  have u: "\<forall>d'. (SHEET_PART, d') \<in> set zout \<longrightarrow> d' = new"
  proof (intro allI impI)
    fix d'
    assume "(SHEET_PART, d') \<in> set zout"
    then obtain j where j: "j < length zout" and e: "zout ! j = (SHEET_PART, d')"
      by (auto simp: in_set_conv_nth)
    with len nth [of j] show "d' = new"
      by (auto split: if_splits)
  qed
  have s1: "\<forall>i < length zin. fst (zin ! i) = SHEET_PART \<longrightarrow> snd (zout ! i) = new"
    using nth by auto
  have s2: "\<forall>i < length zin. fst (zin ! i) \<noteq> SHEET_PART \<longrightarrow>
          zip_read zin (fst (zin ! i)) = Some (snd (zout ! i))"
    using nth by auto
  from names zip_read_all [OF m u] s1 s2 show ?thesis
    by (intro conjI)
qed

lemma export_shape:
  assumes "export_stats_to_excel int_of_str fromstring tostring (Some zin) all_stats fs = Inr zout"
  shows "\<exists>sheet_xml root pre sheet_data post appended.
      build_excel_rows all_stats fs \<noteq> [] \<and>
      zip_read zin SHEET_PART = Some sheet_xml \<and> fromstring sheet_xml = Some root \<and>
      children root = pre @ sheet_data # post \<and>
      (\<forall>k \<in> set pre. tag k \<noteq> qname MAIN_NS ''sheetData'') \<and>
      tag sheet_data = qname MAIN_NS ''sheetData'' \<and>
      new_rows int_of_str sheet_data (build_excel_rows all_stats fs) = Inr appended \<and>
      copy_parts zin
        (tostring (Element (tag root) (attrib root) (etext root) (etail root)
           (pre @ Element (tag sheet_data) (attrib sheet_data) (etext sheet_data)
                    (etail sheet_data) (children sheet_data @ appended) # post))) zin = Inr zout"
proof -
  let ?rows = "build_excel_rows all_stats fs"
  from assms obtain sheet_xml root root' where
    ne: "?rows \<noteq> []" and
    z: "zip_read zin SHEET_PART = Some sheet_xml" and
    f: "fromstring sheet_xml = Some root" and
    t: "new_sheet_tree int_of_str root ?rows = Inr root'" and
    c: "copy_parts zin (tostring root') zin = Inr zout"
    by (auto simp: export_stats_to_excel_def Let_def split: if_splits option.splits sum.splits)
  from t obtain pre sheet_data post sheet_data' where
    ff: "find_first (qname MAIN_NS ''sheetData'') (children root) = Some (pre, sheet_data, post)" and
    a: "append_rows int_of_str sheet_data ?rows = Inr sheet_data'" and
    r: "root' = Element (tag root) (attrib root) (etext root) (etail root)
                  (pre @ sheet_data' # post)"
    by (auto simp: new_sheet_tree_def split: option.splits sum.splits prod.splits)
  from a obtain appended where
    n: "new_rows int_of_str sheet_data ?rows = Inr appended" and
    s: "sheet_data' = Element (tag sheet_data) (attrib sheet_data) (etext sheet_data)
                        (etail sheet_data) (children sheet_data @ appended)"
    by (auto simp: append_rows_def split: sum.splits)
  from find_first_Some [OF ff] have
    k1: "children root = pre @ sheet_data # post" and
    k2: "\<forall>k \<in> set pre. tag k \<noteq> qname MAIN_NS ''sheetData''" and
    k3: "tag sheet_data = qname MAIN_NS ''sheetData''"
    by simp_all
  from c r s have
    "copy_parts zin
        (tostring (Element (tag root) (attrib root) (etext root) (etail root)
           (pre @ Element (tag sheet_data) (attrib sheet_data) (etext sheet_data)
                    (etail sheet_data) (children sheet_data @ appended) # post))) zin = Inr zout"
    by simp
  with ne z f k1 k2 k3 n show ?thesis
    by blast
qed

text \<open>
  Claim C1, as the code has it. When the export returns an archive, there is at least
  one export row, and the worksheet part of the archive is the serialised worksheet tree
  in which the row container has, after its existing children, one new row per export
  row. The new rows carry as index the decimal text of consecutive integers: the row of
  the j-th export row has index start + j, where start is one more than the highest
  index that \<^verbatim>\<open>int\<close> reads from an existing row, or than zero when that is higher. So
  existing rows without a readable index, or with a negative one, do not count, and with
  no index read the first new row has index 1. Different integers have different
  decimal texts, so no index is reused.
\<close>

theorem appended_row_indices:
  assumes "export_stats_to_excel int_of_str fromstring tostring (Some zin) all_stats fs = Inr zout"
  shows "build_excel_rows all_stats fs \<noteq> []
    \<and> (\<exists>sheet_xml root pre sheet_data post appended.
         zip_read zin SHEET_PART = Some sheet_xml \<and> fromstring sheet_xml = Some root \<and>
         children root = pre @ sheet_data # post \<and>
         (\<forall>k \<in> set pre. tag k \<noteq> qname MAIN_NS ''sheetData'') \<and>
         tag sheet_data = qname MAIN_NS ''sheetData'' \<and>
         zip_read zout SHEET_PART =
           Some (tostring (Element (tag root) (attrib root) (etext root) (etail root)
             (pre @ Element (tag sheet_data) (attrib sheet_data) (etext sheet_data)
                      (etail sheet_data) (children sheet_data @ appended) # post))) \<and>
         length appended = length (build_excel_rows all_stats fs) \<and>
         (\<forall>j < length (build_excel_rows all_stats fs).
            make_row (Max (insert 0 (set (existing_indices int_of_str sheet_data))) + 1 + int j)
              (build_excel_rows all_stats fs ! j) = Inr (appended ! j) \<and>
            tag (appended ! j) = qname MAIN_NS ''row'' \<and>
            map_of (attrib (appended ! j)) ''r'' =
              Some (decimal_text
                (Max (insert 0 (set (existing_indices int_of_str sheet_data))) + 1 + int j))))
    \<and> inj decimal_text"
proof -
  let ?rows = "build_excel_rows all_stats fs"
  from export_shape [OF assms] obtain sheet_xml root pre sheet_data post appended where
    ne: "?rows \<noteq> []" and
    z: "zip_read zin SHEET_PART = Some sheet_xml" and
    f: "fromstring sheet_xml = Some root" and
    k1: "children root = pre @ sheet_data # post" and
    k2: "\<forall>k \<in> set pre. tag k \<noteq> qname MAIN_NS ''sheetData''" and
    k3: "tag sheet_data = qname MAIN_NS ''sheetData''" and
    n: "new_rows int_of_str sheet_data ?rows = Inr appended" and
    c: "copy_parts zin
        (tostring (Element (tag root) (attrib root) (etext root) (etail root)
           (pre @ Element (tag sheet_data) (attrib sheet_data) (etext sheet_data)
                    (etail sheet_data) (children sheet_data @ appended) # post))) zin = Inr zout"
    by blast
  let ?m = "Max (insert 0 (set (existing_indices int_of_str sheet_data)))"
  from copy_parts_output [OF c z] have
    o: "zip_read zout SHEET_PART =
           Some (tostring (Element (tag root) (attrib root) (etext root) (etail root)
             (pre @ Element (tag sheet_data) (attrib sheet_data) (etext sheet_data)
                      (etail sheet_data) (children sheet_data @ appended) # post)))"
    by blast
  from new_rows_nth [OF n] have len: "length appended = length ?rows"
    and mk: "\<forall>j < length ?rows.
               make_row (start_row int_of_str sheet_data + int j) (?rows ! j) = Inr (appended ! j)"
    by simp_all
  have rows: "\<forall>j < length ?rows.
            make_row (?m + 1 + int j) (?rows ! j) = Inr (appended ! j) \<and>
            tag (appended ! j) = qname MAIN_NS ''row'' \<and>
            map_of (attrib (appended ! j)) ''r'' = Some (decimal_text (?m + 1 + int j))"
  proof (intro allI impI)
    fix j
    assume "j < length ?rows"
    with mk have r: "make_row (?m + 1 + int j) (?rows ! j) = Inr (appended ! j)"
      by (simp add: start_row_Max)
    from make_row_Inr [OF r] r
    show "make_row (?m + 1 + int j) (?rows ! j) = Inr (appended ! j) \<and>
            tag (appended ! j) = qname MAIN_NS ''row'' \<and>
            map_of (attrib (appended ! j)) ''r'' = Some (decimal_text (?m + 1 + int j))"
      by simp
  qed
  have i: "inj decimal_text"
    by (rule injI) (rule decimal_text_inj)
  from z f k1 k2 k3 o len rows have
    "\<exists>sheet_xml root pre sheet_data post appended.
         zip_read zin SHEET_PART = Some sheet_xml \<and> fromstring sheet_xml = Some root \<and>
         children root = pre @ sheet_data # post \<and>
         (\<forall>k \<in> set pre. tag k \<noteq> qname MAIN_NS ''sheetData'') \<and>
         tag sheet_data = qname MAIN_NS ''sheetData'' \<and>
         zip_read zout SHEET_PART =
           Some (tostring (Element (tag root) (attrib root) (etext root) (etail root)
             (pre @ Element (tag sheet_data) (attrib sheet_data) (etext sheet_data)
                      (etail sheet_data) (children sheet_data @ appended) # post))) \<and>
         length appended = length ?rows \<and>
         (\<forall>j < length ?rows.
            make_row (Max (insert 0 (set (existing_indices int_of_str sheet_data))) + 1 + int j)
              (?rows ! j) = Inr (appended ! j) \<and>
            tag (appended ! j) = qname MAIN_NS ''row'' \<and>
            map_of (attrib (appended ! j)) ''r'' =
              Some (decimal_text
                (Max (insert 0 (set (existing_indices int_of_str sheet_data))) + 1 + int j)))"
    by blast
  with ne i show ?thesis
    by (intro conjI)
qed

theorem appended_row_indices_witness:
  "export_stats_to_excel ascii_int example_fromstring example_tostring (Some example_template)
     [example_empty, example_two] ''FS1'' =
     Inr [(''[Content_Types].xml'', ''types''),
          (''xl/worksheets/sheet1.xml'', ''1,2,3,4,5,''),
          (''xl/styles.xml'', ''styles'')] \<and>
   build_excel_rows [example_empty, example_two] ''FS1'' \<noteq> [] \<and>
   existing_indices ascii_int example_sheet_data = [1, 2]"
proof -
  have h: "export_stats_to_excel ascii_int example_fromstring example_tostring
     (Some example_template) [example_empty, example_two] ''FS1'' =
     Inr [(''[Content_Types].xml'', ''types''),
          (''xl/worksheets/sheet1.xml'', ''1,2,3,4,5,''),
          (''xl/styles.xml'', ''styles'')]"
    by code_simp
  have e: "existing_indices ascii_int example_sheet_data = [1, 2]"
    by code_simp
  from appended_row_indices [OF h]
  have "build_excel_rows [example_empty, example_two] ''FS1'' \<noteq> []"
    by blast
  with h e show ?thesis by blast
qed

text \<open>
  Claim C1 as stated fails on a worksheet whose only row has index -5: the highest
  existing index plus one is -4, and the appended row gets index 1.
\<close>

theorem negative_index_counterexample:
  "existing_indices ascii_int example_negative_sheet_data = [- 5] \<and>
   export_stats_to_excel ascii_int example_fromstring example_tostring
     (Some [(''xl/worksheets/sheet1.xml'', ''negative'')]) [example_empty] ''FS1'' =
     Inr [(''xl/worksheets/sheet1.xml'', ''-5,1,'')]"
  by code_simp




end
